theory Spec2Isabelle
  imports Main "HOL-Library.Word"
begin

section \<open>The toolkit boundary\<close>

text \<open>
  \<^verbatim>\<open>application.c\<close> is glue over GTK4/libadwaita: every statement of it is a call into
  the toolkit. The embedding keeps the code of the file and makes the toolkit explicit:
  \<^item> an object reference (\<^verbatim>\<open>GApplication *\<close>, \<^verbatim>\<open>GtkBuilder *\<close>, \<^verbatim>\<open>GFile *\<close>,
    \<^verbatim>\<open>gpointer\<close>) is an address, \<open>0\<close> being \<^verbatim>\<open>NULL\<close>;
  \<^item> a \<^verbatim>\<open>char *\<close> handed back by the toolkit is a \<open>string option\<close>, \<open>None\<close> being \<^verbatim>\<open>NULL\<close>;
  \<^item> a \<^verbatim>\<open>gint\<close> is a 32-bit word read as two's complement;
  \<^item> the world is the list of the toolkit calls issued so far, oldest first, each with
    the arguments it was given; a function of the file takes the world and returns it
    extended;
  \<^item> what the toolkit hands back (a new object, the result of a load, the path of a
    file) is not decided by this file: it is read from a \<open>toolkit\<close> record, over which
    every theorem quantifies.
\<close>

type_synonym gpointer = nat
type_synonym gint = "32 word"

abbreviation NULL :: gpointer where
  "NULL \<equiv> 0"

text \<open>The four static callbacks, as the function pointers stored in \<^verbatim>\<open>app_entries\<close>.\<close>

datatype callback = Fn_on_new_window | Fn_on_preferences | Fn_on_shortcuts | Fn_on_about

text \<open>\<^verbatim>\<open>GActionEntry\<close>: the five fields the initialisers of \<^verbatim>\<open>app_entries\<close> fill.\<close>

record GActionEntry =
  name :: string
  activate :: "callback option"
  parameter_type :: "string option"
  state :: "string option"
  change_state :: "callback option"

datatype tk_call =
    G_print string
  | Parent_startup gpointer
  | G_action_map_add_action_entries gpointer "GActionEntry list" gint gpointer
  | Gtk_application_set_accels_for_action gpointer string "string option list"
  | Gtk_css_provider_new
  | Gtk_css_provider_load_from_path gpointer string gpointer
  | Gdk_display_get_default
  | Gtk_style_context_add_provider_for_display gpointer gpointer nat
  | Gtk_builder_new_from_file string
  | Gtk_builder_get_object gpointer string
  | Gtk_window_set_application gpointer gpointer
  | Gtk_window_present gpointer
  | G_object_unref gpointer
  | G_file_get_path gpointer
  | G_free "string option"

type_synonym world = "tk_call list"

text \<open>What the toolkit returns to the calls of this file that have a result.\<close>

record toolkit =
  css_provider_new_ret :: gpointer
  css_provider_load_from_path_ret :: "gpointer \<Rightarrow> string \<Rightarrow> bool"
  display_get_default_ret :: gpointer
  builder_new_from_file_ret :: "string \<Rightarrow> gpointer"
  builder_get_object_ret :: "gpointer \<Rightarrow> string \<Rightarrow> gpointer"
  file_get_path_ret :: "gpointer \<Rightarrow> string option"

fun call_name :: "tk_call \<Rightarrow> string" where
  "call_name (G_print _) = ''g_print''"
| "call_name (Parent_startup _) = ''startup''"
| "call_name (G_action_map_add_action_entries _ _ _ _) = ''g_action_map_add_action_entries''"
| "call_name (Gtk_application_set_accels_for_action _ _ _) =
     ''gtk_application_set_accels_for_action''"
| "call_name Gtk_css_provider_new = ''gtk_css_provider_new''"
| "call_name (Gtk_css_provider_load_from_path _ _ _) = ''gtk_css_provider_load_from_path''"
| "call_name Gdk_display_get_default = ''gdk_display_get_default''"
| "call_name (Gtk_style_context_add_provider_for_display _ _ _) =
     ''gtk_style_context_add_provider_for_display''"
| "call_name (Gtk_builder_new_from_file _) = ''gtk_builder_new_from_file''"
| "call_name (Gtk_builder_get_object _ _) = ''gtk_builder_get_object''"
| "call_name (Gtk_window_set_application _ _) = ''gtk_window_set_application''"
| "call_name (Gtk_window_present _) = ''gtk_window_present''"
| "call_name (G_object_unref _) = ''g_object_unref''"
| "call_name (G_file_get_path _) = ''g_file_get_path''"
| "call_name (G_free _) = ''g_free''"

subsection \<open>The toolkit functions the file calls\<close>

definition g_print :: "string \<Rightarrow> world \<Rightarrow> world" where
  "g_print s w = w @ [G_print s]"

text \<open>How \<^verbatim>\<open>%s\<close> prints its \<^verbatim>\<open>char *\<close> argument; the C library prints a null pointer
  as \<^verbatim>\<open>(null)\<close>.\<close>

fun printf_s :: "string option \<Rightarrow> string" where
  "printf_s None = ''(null)''"
| "printf_s (Some s) = s"

text \<open>\<^verbatim>\<open>ADW_APPLICATION_CLASS(example_app_parent_class)->startup(gapp)\<close>.\<close>

definition parent_startup :: "gpointer \<Rightarrow> world \<Rightarrow> world" where
  "parent_startup gapp w = w @ [Parent_startup gapp]"

definition g_action_map_add_action_entries ::
    "gpointer \<Rightarrow> GActionEntry list \<Rightarrow> gint \<Rightarrow> gpointer \<Rightarrow> world \<Rightarrow> world" where
  "g_action_map_add_action_entries action_map entries n_entries user_data w =
     w @ [G_action_map_add_action_entries action_map entries n_entries user_data]"

definition gtk_application_set_accels_for_action ::
    "gpointer \<Rightarrow> string \<Rightarrow> string option list \<Rightarrow> world \<Rightarrow> world" where
  "gtk_application_set_accels_for_action app detailed_action_name accels w =
     w @ [Gtk_application_set_accels_for_action app detailed_action_name accels]"

definition gtk_css_provider_new :: "toolkit \<Rightarrow> world \<Rightarrow> gpointer \<times> world" where
  "gtk_css_provider_new tk w = (css_provider_new_ret tk, w @ [Gtk_css_provider_new])"

definition gtk_css_provider_load_from_path ::
    "toolkit \<Rightarrow> gpointer \<Rightarrow> string \<Rightarrow> gpointer \<Rightarrow> world \<Rightarrow> bool \<times> world" where
  "gtk_css_provider_load_from_path tk provider path error w =
     (css_provider_load_from_path_ret tk provider path,
      w @ [Gtk_css_provider_load_from_path provider path error])"

definition gdk_display_get_default :: "toolkit \<Rightarrow> world \<Rightarrow> gpointer \<times> world" where
  "gdk_display_get_default tk w = (display_get_default_ret tk, w @ [Gdk_display_get_default])"

definition gtk_style_context_add_provider_for_display ::
    "gpointer \<Rightarrow> gpointer \<Rightarrow> nat \<Rightarrow> world \<Rightarrow> world" where
  "gtk_style_context_add_provider_for_display display provider priority w =
     w @ [Gtk_style_context_add_provider_for_display display provider priority]"

definition gtk_builder_new_from_file :: "toolkit \<Rightarrow> string \<Rightarrow> world \<Rightarrow> gpointer \<times> world" where
  "gtk_builder_new_from_file tk filename w =
     (builder_new_from_file_ret tk filename, w @ [Gtk_builder_new_from_file filename])"

definition gtk_builder_get_object ::
    "toolkit \<Rightarrow> gpointer \<Rightarrow> string \<Rightarrow> world \<Rightarrow> gpointer \<times> world" where
  "gtk_builder_get_object tk builder object_name w =
     (builder_get_object_ret tk builder object_name,
      w @ [Gtk_builder_get_object builder object_name])"

definition gtk_window_set_application :: "gpointer \<Rightarrow> gpointer \<Rightarrow> world \<Rightarrow> world" where
  "gtk_window_set_application window app w = w @ [Gtk_window_set_application window app]"

definition gtk_window_present :: "gpointer \<Rightarrow> world \<Rightarrow> world" where
  "gtk_window_present window w = w @ [Gtk_window_present window]"

definition g_object_unref :: "gpointer \<Rightarrow> world \<Rightarrow> world" where
  "g_object_unref object w = w @ [G_object_unref object]"

definition g_file_get_path :: "toolkit \<Rightarrow> gpointer \<Rightarrow> world \<Rightarrow> string option \<times> world" where
  "g_file_get_path tk file w = (file_get_path_ret tk file, w @ [G_file_get_path file])"

definition g_free :: "string option \<Rightarrow> world \<Rightarrow> world" where
  "g_free mem w = w @ [G_free mem]"

text \<open>The toolkit's cast macros return the reference they are given.\<close>

definition GTK_APPLICATION :: "gpointer \<Rightarrow> gpointer" where
  "GTK_APPLICATION obj = obj"

definition G_ACTION_MAP :: "gpointer \<Rightarrow> gpointer" where
  "G_ACTION_MAP obj = obj"

definition GTK_WINDOW :: "gpointer \<Rightarrow> gpointer" where
  "GTK_WINDOW obj = obj"

definition GTK_STYLE_PROVIDER :: "gpointer \<Rightarrow> gpointer" where
  "GTK_STYLE_PROVIDER obj = obj"

definition GTK_STYLE_PROVIDER_PRIORITY_APPLICATION :: nat where
  "GTK_STYLE_PROVIDER_PRIORITY_APPLICATION = 600"

text \<open>
  Modelled from the spec: the cast macro \<^verbatim>\<open>EXAMPLE_APP\<close> is used by \<^verbatim>\<open>on_new_window\<close> and
  \<^verbatim>\<open>example_app_startup\<close> but the file has no declaration of it (there is no
  \<^verbatim>\<open>G_DECLARE_FINAL_TYPE\<close> and no header). The spec has the application type as a thin
  subclass with no fields of its own and a print as the only effect of a callback, so
  the cast returns its argument and does nothing else.
\<close>

definition EXAMPLE_APP :: "gpointer \<Rightarrow> gpointer" where
  "EXAMPLE_APP obj = obj"

section \<open>The code of application.c\<close>

subsection \<open>Action handlers\<close>

definition on_new_window :: "gpointer \<Rightarrow> gpointer \<Rightarrow> gpointer \<Rightarrow> world \<Rightarrow> world" where
  "on_new_window action parameter user_data w =
     (let app = EXAMPLE_APP user_data
      in g_print ''New window activated\<newline>'' w)"

definition on_preferences :: "gpointer \<Rightarrow> gpointer \<Rightarrow> gpointer \<Rightarrow> world \<Rightarrow> world" where
  "on_preferences action parameter user_data w = g_print ''Preferences activated\<newline>'' w"

definition on_shortcuts :: "gpointer \<Rightarrow> gpointer \<Rightarrow> gpointer \<Rightarrow> world \<Rightarrow> world" where
  "on_shortcuts action parameter user_data w =
     g_print ''Keyboard shortcuts activated\<newline>'' w"

definition on_about :: "gpointer \<Rightarrow> gpointer \<Rightarrow> gpointer \<Rightarrow> world \<Rightarrow> world" where
  "on_about action parameter user_data w = g_print ''About activated\<newline>'' w"

text \<open>A call through one of the stored function pointers.\<close>

fun call_callback :: "callback \<Rightarrow> gpointer \<Rightarrow> gpointer \<Rightarrow> gpointer \<Rightarrow> world \<Rightarrow> world" where
  "call_callback Fn_on_new_window = on_new_window"
| "call_callback Fn_on_preferences = on_preferences"
| "call_callback Fn_on_shortcuts = on_shortcuts"
| "call_callback Fn_on_about = on_about"

subsection \<open>Application actions\<close>

definition app_entries :: "GActionEntry list" where
  "app_entries =
     [\<lparr>name = ''new-window'', activate = Some Fn_on_new_window, parameter_type = None,
        state = None, change_state = None\<rparr>,
      \<lparr>name = ''preferences'', activate = Some Fn_on_preferences, parameter_type = None,
        state = None, change_state = None\<rparr>,
      \<lparr>name = ''shortcuts'', activate = Some Fn_on_shortcuts, parameter_type = None,
        state = None, change_state = None\<rparr>,
      \<lparr>name = ''about'', activate = Some Fn_on_about, parameter_type = None,
        state = None, change_state = None\<rparr>]"

text \<open>\<^verbatim>\<open>G_N_ELEMENTS(arr)\<close> is \<^verbatim>\<open>sizeof (arr) / sizeof ((arr)[0])\<close>: the length of the array.\<close>

definition G_N_ELEMENTS :: "'a list \<Rightarrow> gint" where
  "G_N_ELEMENTS arr = of_nat (length arr)"

subsection \<open>Load custom CSS\<close>

definition load_css :: "toolkit \<Rightarrow> gpointer \<Rightarrow> world \<Rightarrow> world" where
  "load_css tk app w0 =
     (let (provider, w1) = gtk_css_provider_new tk w0;
          (loaded, w2) = gtk_css_provider_load_from_path tk provider ''style.css'' NULL w1;
          (display, w3) = gdk_display_get_default tk w2
      in gtk_style_context_add_provider_for_display
           display (GTK_STYLE_PROVIDER provider) GTK_STYLE_PROVIDER_PRIORITY_APPLICATION w3)"

subsection \<open>Set keyboard shortcuts\<close>

definition set_accels :: "gpointer \<Rightarrow> world \<Rightarrow> world" where
  "set_accels app w0 =
     (let new_window_accels = [Some ''<Primary>n'', None];
          w1 = gtk_application_set_accels_for_action app ''app.new-window'' new_window_accels w0;
          preferences_accels = [Some ''<Primary>comma'', None];
          w2 = gtk_application_set_accels_for_action app ''app.preferences'' preferences_accels w1;
          shortcuts_accels = [Some ''<Primary>question'', None]
      in gtk_application_set_accels_for_action app ''app.shortcuts'' shortcuts_accels w2)"

subsection \<open>Application startup\<close>

definition example_app_startup :: "toolkit \<Rightarrow> gpointer \<Rightarrow> world \<Rightarrow> world" where
  "example_app_startup tk gapp w0 =
     (let app = GTK_APPLICATION gapp;
          self = EXAMPLE_APP app;
          w1 = parent_startup gapp w0;
          w2 = g_action_map_add_action_entries
                 (G_ACTION_MAP app) app_entries (G_N_ELEMENTS app_entries) self w1;
          w3 = set_accels app w2;
          w4 = load_css tk app w3
      in g_print ''Application started\<newline>'' w4)"

subsection \<open>Application activate\<close>

definition example_app_activate :: "toolkit \<Rightarrow> gpointer \<Rightarrow> world \<Rightarrow> world" where
  "example_app_activate tk gapp w0 =
     (let app = GTK_APPLICATION gapp;
          (builder, w1) = gtk_builder_new_from_file tk ''window.ui'' w0;
          (window, w2) = gtk_builder_get_object tk builder ''example_window'' w1;
          w3 = gtk_window_set_application (GTK_WINDOW window) app w2;
          w4 = gtk_window_present (GTK_WINDOW window) w3;
          w5 = g_object_unref builder w4
      in g_print ''Window activated\<newline>'' w5)"

subsection \<open>Application open (handle file opening)\<close>

text \<open>
  \<^verbatim>\<open>files\<close> is a C array, here the list of its elements; \<^verbatim>\<open>files[i]\<close> outside of it is
  undefined behaviour in C and an error value here.
\<close>

datatype error = Array_out_of_bounds

definition array_get :: "'a list \<Rightarrow> gint \<Rightarrow> error + 'a" where
  "array_get arr i =
     (if 0 \<le> sint i \<and> nat (sint i) < length arr then Inr (arr ! nat (sint i))
      else Inl Array_out_of_bounds)"

text \<open>
  The \<^verbatim>\<open>for\<close> loop, from its counter \<open>i\<close> on. \<^verbatim>\<open>i < n_files\<close> compares two signed
  32-bit integers and \<^verbatim>\<open>i++\<close> is the addition of the machine; the \<^verbatim>\<open>%s\<close> of the format
  is replaced by the path.
\<close>

function example_app_open_loop ::
    "toolkit \<Rightarrow> gpointer list \<Rightarrow> gint \<Rightarrow> gint \<Rightarrow> world \<Rightarrow> error + world" where
  "example_app_open_loop tk files n_files i w0 =
     (if i <s n_files then
        (case array_get files i of
           Inl e \<Rightarrow> Inl e
         | Inr file \<Rightarrow>
             (let (path, w1) = g_file_get_path tk file w0;
                  w2 = g_print (''Opening file: '' @ printf_s path @ ''\<newline>'') w1;
                  w3 = g_free path w2
              in example_app_open_loop tk files n_files (i + 1) w3))
      else Inr w0)"
  by pat_completeness auto
termination
proof (relation "measure (\<lambda>(tk, files, n_files, i, w). nat (sint n_files - sint i))")
  show "wf (measure (\<lambda>(tk, files, n_files, i, w). nat (sint n_files - sint i)))"
    by simp
next
  fix tk :: toolkit and files :: "gpointer list" and n_files i :: gint and w0 w3 :: world
  assume less: "i <s n_files"
  have "sint n_files < 2 ^ 31"
    using sint_lt [of n_files] by simp
  moreover have "- (2 ^ 31) \<le> sint i"
    using sint_ge [of i] by simp
  ultimately have "- (2 ^ 31) \<le> sint i + 1 \<and> sint i + 1 < 2 ^ 31"
    using less by (simp add: word_sless_alt)
  then have "sint (i + 1) = sint i + 1"
    by (simp add: sint_word_add signed_take_bit_int_eq_self)
  then show "((tk, files, n_files, i + 1, w3), (tk, files, n_files, i, w0))
      \<in> measure (\<lambda>(tk, files, n_files, i, w). nat (sint n_files - sint i))"
    using less by (simp add: word_sless_alt)
qed

declare example_app_open_loop.simps [simp del]

definition example_app_open ::
    "toolkit \<Rightarrow> gpointer \<Rightarrow> gpointer list \<Rightarrow> gint \<Rightarrow> string \<Rightarrow> world \<Rightarrow> error + world" where
  "example_app_open tk gapp files n_files hint w0 =
     (let app = GTK_APPLICATION gapp
      in case example_app_open_loop tk files n_files 0 w0 of
           Inl e \<Rightarrow> Inl e
         | Inr w1 \<Rightarrow> Inr (example_app_activate tk gapp w1))"

section \<open>Reading the world\<close>

text \<open>The strings written by \<^verbatim>\<open>g_print\<close>, in the order they were written.\<close>

fun print_of :: "tk_call \<Rightarrow> string list" where
  "print_of (G_print s) = [s]"
| "print_of _ = []"

definition printed :: "world \<Rightarrow> string list" where
  "printed w = concat (map print_of w)"

text \<open>
  The action names added to the action map \<open>m\<close>, in the order they were added.
  \<^verbatim>\<open>g_action_map_add_action_entries\<close> adds the first \<^verbatim>\<open>n_entries\<close> entries of the array,
  and all of them when \<^verbatim>\<open>n_entries\<close> is negative.
\<close>

fun actions_added :: "gpointer \<Rightarrow> tk_call \<Rightarrow> string list" where
  "actions_added m (G_action_map_add_action_entries m' entries n_entries user_data) =
     (if m' = m then
        map name (if sint n_entries < 0 then entries else take (nat (sint n_entries)) entries)
      else [])"
| "actions_added m _ = []"

definition registered_actions :: "world \<Rightarrow> gpointer \<Rightarrow> string list" where
  "registered_actions w m = concat (map (actions_added m) w)"

text \<open>A \<^verbatim>\<open>NULL\<close>-terminated array of strings, up to its terminator.\<close>

fun strv :: "string option list \<Rightarrow> string list" where
  "strv [] = []"
| "strv (None # rest) = []"
| "strv (Some s # rest) = s # strv rest"

text \<open>
  The accelerators of a detailed action name: those of the latest
  \<^verbatim>\<open>gtk_application_set_accels_for_action\<close> for it on this application, none when there
  was no such call.
\<close>

fun accels_after :: "gpointer \<Rightarrow> string \<Rightarrow> string list \<Rightarrow> tk_call \<Rightarrow> string list" where
  "accels_after app a cur (Gtk_application_set_accels_for_action app' a' accels) =
     (if app' = app \<and> a' = a then strv accels else cur)"
| "accels_after app a cur _ = cur"

definition accels_for_action :: "world \<Rightarrow> gpointer \<Rightarrow> string \<Rightarrow> string list" where
  "accels_for_action w app a = foldl (accels_after app a) [] w"

text \<open>The detailed action names given accelerators, one for each such call, in order.\<close>

fun accel_binding :: "tk_call \<Rightarrow> (string \<times> string list) list" where
  "accel_binding (Gtk_application_set_accels_for_action app a accels) = [(a, strv accels)]"
| "accel_binding _ = []"

definition accel_bindings :: "world \<Rightarrow> (string \<times> string list) list" where
  "accel_bindings w = concat (map accel_binding w)"

definition count_calls :: "string \<Rightarrow> world \<Rightarrow> nat" where
  "count_calls fn w = length (filter (\<lambda>c. call_name c = fn) w)"

text \<open>The calls of one iteration of the loop of \<^verbatim>\<open>example_app_open\<close>, for the file it reads.\<close>

definition open_file_calls :: "toolkit \<Rightarrow> gpointer \<Rightarrow> tk_call list" where
  "open_file_calls tk file =
     [G_file_get_path file,
      G_print (''Opening file: '' @ printf_s (file_get_path_ret tk file) @ ''\<newline>''),
      G_free (file_get_path_ret tk file)]"

text \<open>
  A toolkit to evaluate the code with: the stylesheet does not load, \<^verbatim>\<open>window.ui\<close> gives
  builder 9 with the window 10 in it, and only file 21 has a path.
\<close>

definition sample_toolkit :: toolkit where
  "sample_toolkit =
     \<lparr>css_provider_new_ret = 7,
      css_provider_load_from_path_ret = (\<lambda>provider path. False),
      display_get_default_ret = 8,
      builder_new_from_file_ret = (\<lambda>filename. 9),
      builder_get_object_ret = (\<lambda>builder object_name. 10),
      file_get_path_ret = (\<lambda>file. if file = 21 then Some ''/tmp/a.txt'' else None)\<rparr>"

text \<open>
  The same toolkit when \<^verbatim>\<open>window.ui\<close> did not load: the builder has no object named
  \<^verbatim>\<open>example_window\<close>, and \<^verbatim>\<open>gtk_builder_get_object\<close> returns \<^verbatim>\<open>NULL\<close>.
\<close>

definition failed_ui_toolkit :: toolkit where
  "failed_ui_toolkit = sample_toolkit\<lparr>builder_get_object_ret := \<lambda>builder object_name. NULL\<rparr>"

section \<open>Properties\<close>

lemmas tk_defs =
  g_print_def parent_startup_def g_action_map_add_action_entries_def
  gtk_application_set_accels_for_action_def gtk_css_provider_new_def
  gtk_css_provider_load_from_path_def gdk_display_get_default_def
  gtk_style_context_add_provider_for_display_def gtk_builder_new_from_file_def
  gtk_builder_get_object_def gtk_window_set_application_def gtk_window_present_def
  g_object_unref_def g_file_get_path_def g_free_def

lemmas cast_defs =
  GTK_APPLICATION_def G_ACTION_MAP_def GTK_WINDOW_def GTK_STYLE_PROVIDER_def EXAMPLE_APP_def

subsection \<open>The calls each function makes\<close>

lemma example_app_startup_calls:
  "example_app_startup tk gapp w =
     w @ [Parent_startup gapp,
          G_action_map_add_action_entries gapp app_entries 4 gapp,
          Gtk_application_set_accels_for_action gapp ''app.new-window''
            [Some ''<Primary>n'', None],
          Gtk_application_set_accels_for_action gapp ''app.preferences''
            [Some ''<Primary>comma'', None],
          Gtk_application_set_accels_for_action gapp ''app.shortcuts''
            [Some ''<Primary>question'', None],
          Gtk_css_provider_new,
          Gtk_css_provider_load_from_path (css_provider_new_ret tk) ''style.css'' NULL,
          Gdk_display_get_default,
          Gtk_style_context_add_provider_for_display
            (display_get_default_ret tk) (css_provider_new_ret tk) 600,
          G_print ''Application started\<newline>'']"
proof -
  have "G_N_ELEMENTS app_entries = 4"
    by (simp add: G_N_ELEMENTS_def app_entries_def)
  then show ?thesis
    by (simp add: example_app_startup_def set_accels_def load_css_def tk_defs cast_defs
        GTK_STYLE_PROVIDER_PRIORITY_APPLICATION_def Let_def)
qed

lemma example_app_activate_calls:
  "example_app_activate tk gapp w =
     w @ [Gtk_builder_new_from_file ''window.ui'',
          Gtk_builder_get_object (builder_new_from_file_ret tk ''window.ui'') ''example_window'',
          Gtk_window_set_application
            (builder_get_object_ret tk (builder_new_from_file_ret tk ''window.ui'')
               ''example_window'') gapp,
          Gtk_window_present
            (builder_get_object_ret tk (builder_new_from_file_ret tk ''window.ui'')
               ''example_window''),
          G_object_unref (builder_new_from_file_ret tk ''window.ui''),
          G_print ''Window activated\<newline>'']"
  by (simp add: example_app_activate_def tk_defs cast_defs Let_def)

lemma sint_gint_Suc:
  fixes i n :: gint
  assumes "i <s n"
  shows "sint (i + 1) = sint i + 1"
proof -
  have "sint n < 2 ^ 31"
    using sint_lt [of n] by simp
  moreover have "- (2 ^ 31) \<le> sint i"
    using sint_ge [of i] by simp
  ultimately have "- (2 ^ 31) \<le> sint i + 1 \<and> sint i + 1 < 2 ^ 31"
    using assms by (simp add: word_sless_alt)
  then show ?thesis
    by (simp add: sint_word_add signed_take_bit_int_eq_self)
qed

lemma example_app_open_loop_stop:
  "\<not> i <s n_files \<Longrightarrow> example_app_open_loop tk files n_files i w = Inr w"
  by (subst example_app_open_loop.simps) simp

lemma example_app_open_loop_step:
  "i <s n_files \<Longrightarrow> array_get files i = Inr file \<Longrightarrow>
   example_app_open_loop tk files n_files i w =
     example_app_open_loop tk files n_files (i + 1) (w @ open_file_calls tk file)"
  by (subst example_app_open_loop.simps)
    (simp add: g_file_get_path_def g_print_def g_free_def open_file_calls_def)

lemma example_app_open_loop_from:
  "0 \<le> sint i \<Longrightarrow> sint n_files \<le> int (length files) \<Longrightarrow>
   example_app_open_loop tk files n_files i w =
     Inr (w @ concat (map (open_file_calls tk)
            (drop (nat (sint i)) (take (nat (sint n_files)) files))))"
proof (induction "nat (sint n_files - sint i)" arbitrary: i w)
  case 0
  then have stop: "\<not> i <s n_files"
    by (simp add: word_sless_alt)
  from 0 have "nat (sint n_files) \<le> nat (sint i)"
    by simp
  then have "drop (nat (sint i)) (take (nat (sint n_files)) files) = []"
    by simp
  then show ?case
    by (simp add: example_app_open_loop_stop [OF stop])
next
  case (Suc m)
  let ?k = "nat (sint i)"
  let ?fs = "take (nat (sint n_files)) files"
  from Suc.hyps(2) have lt: "sint i < sint n_files"
    by simp
  then have less: "i <s n_files"
    by (simp add: word_sless_alt)
  have k: "?k < length ?fs"
    using lt Suc.prems by simp
  have get: "array_get files i = Inr (files ! ?k)"
    using lt Suc.prems by (simp add: array_get_def)
  have suc: "sint (i + 1) = sint i + 1"
    using less by (rule sint_gint_Suc)
  have nat_suc: "nat (sint (i + 1)) = Suc ?k"
    using suc Suc.prems by simp
  have m: "m = nat (sint n_files - sint (i + 1))"
    using Suc.hyps(2) suc by simp
  have nonneg: "0 \<le> sint (i + 1)"
    using suc Suc.prems by simp
  have cons: "drop ?k ?fs = ?fs ! ?k # drop (Suc ?k) ?fs"
    by (rule Cons_nth_drop_Suc [OF k, symmetric])
  have nth: "?fs ! ?k = files ! ?k"
    using k by simp
  have "example_app_open_loop tk files n_files i w =
      example_app_open_loop tk files n_files (i + 1) (w @ open_file_calls tk (files ! ?k))"
    using less get by (rule example_app_open_loop_step)
  also have "\<dots> = Inr ((w @ open_file_calls tk (files ! ?k)) @
      concat (map (open_file_calls tk) (drop (Suc ?k) ?fs)))"
    using Suc.hyps(1) [OF m nonneg Suc.prems(2)] nat_suc by simp
  finally show ?case
    using cons nth by simp
qed

lemma example_app_open_loop_calls:
  assumes "sint n_files \<le> int (length files)"
  shows "example_app_open_loop tk files n_files 0 w =
     Inr (w @ concat (map (open_file_calls tk) (take (nat (sint n_files)) files)))"
  using example_app_open_loop_from [of 0 n_files files tk w] assms by simp

lemma example_app_open_calls:
  assumes "sint n_files \<le> int (length files)"
  shows "example_app_open tk gapp files n_files hint w =
     Inr (example_app_activate tk gapp
       (w @ concat (map (open_file_calls tk) (take (nat (sint n_files)) files))))"
  by (simp add: example_app_open_def example_app_open_loop_calls [OF assms])

lemma printed_append: "printed (w @ w') = printed w @ printed w'"
  by (simp add: printed_def)

lemma registered_actions_append:
  "registered_actions (w @ w') m = registered_actions w m @ registered_actions w' m"
  by (simp add: registered_actions_def)

lemma count_calls_append: "count_calls fn (w @ w') = count_calls fn w + count_calls fn w'"
  by (simp add: count_calls_def)

lemma accel_bindings_append: "accel_bindings (w @ w') = accel_bindings w @ accel_bindings w'"
  by (simp add: accel_bindings_def)

lemma printed_open_file_calls:
  "printed (concat (map (open_file_calls tk) fs)) =
     map (\<lambda>file. ''Opening file: '' @ printf_s (file_get_path_ret tk file) @ ''\<newline>'') fs"
  by (induction fs) (simp_all add: printed_def open_file_calls_def)


lemma example_app_open_loop_fail:
  "i <s n_files \<Longrightarrow> array_get files i = Inl e \<Longrightarrow>
   example_app_open_loop tk files n_files i w = Inl e"
  by (subst example_app_open_loop.simps) simp

lemma example_app_open_loop_shape:
  "example_app_open_loop tk files n_files i w = Inr w' \<Longrightarrow>
   \<exists>fs. w' = w @ concat (map (open_file_calls tk) fs)"
proof (induction "nat (sint n_files - sint i)" arbitrary: i w)
  case 0
  then have "\<not> i <s n_files"
    by (simp add: word_sless_alt)
  with 0 have "w' = w"
    by (simp add: example_app_open_loop_stop)
  then have "w' = w @ concat (map (open_file_calls tk) [])"
    by simp
  then show ?case ..
next
  case (Suc m)
  from Suc.hyps(2) have less: "i <s n_files"
    by (simp add: word_sless_alt)
  have m: "m = nat (sint n_files - sint (i + 1))"
    using Suc.hyps(2) sint_gint_Suc [OF less] by simp
  show ?case
  proof (cases "array_get files i")
    case (Inl e)
    with less Suc.prems show ?thesis
      by (simp add: example_app_open_loop_fail)
  next
    case (Inr f)
    with less Suc.prems
    have "example_app_open_loop tk files n_files (i + 1) (w @ open_file_calls tk f) = Inr w'"
      by (simp add: example_app_open_loop_step)
    from Suc.hyps(1) [OF m this]
    obtain fs where "w' = (w @ open_file_calls tk f) @ concat (map (open_file_calls tk) fs)"
      by blast
    then have "w' = w @ concat (map (open_file_calls tk) (f # fs))"
      by simp
    then show ?thesis ..
  qed
qed

lemma registered_actions_open_file_calls:
  "registered_actions (concat (map (open_file_calls tk) fs)) m = []"
  by (induction fs) (simp_all add: registered_actions_def open_file_calls_def)

lemma count_calls_open_file_calls:
  "fn \<notin> {''g_file_get_path'', ''g_print'', ''g_free''} \<Longrightarrow>
   count_calls fn (concat (map (open_file_calls tk) fs)) = 0"
  by (induction fs) (auto simp add: count_calls_def open_file_calls_def)

subsection \<open>Action callbacks\<close>

text \<open>
  C3. Each of the four action callbacks returns, for every action, parameter and user
  data and from every world, and all it does is one \<^verbatim>\<open>g_print\<close> of its fixed message:
  the world it returns is the one it was given with that single call appended. The same
  holds when the callback is reached through the function pointer of its entry.
\<close>

theorem action_callbacks_only_print:
  "on_new_window action parameter user_data w = w @ [G_print ''New window activated\<newline>'']
   \<and> on_preferences action parameter user_data w = w @ [G_print ''Preferences activated\<newline>'']
   \<and> on_shortcuts action parameter user_data w =
       w @ [G_print ''Keyboard shortcuts activated\<newline>'']
   \<and> on_about action parameter user_data w = w @ [G_print ''About activated\<newline>'']
   \<and> (\<exists>msg. call_callback cb action parameter user_data w = w @ [G_print msg])"
  by (cases cb)
    (simp_all add: on_new_window_def on_preferences_def on_shortcuts_def on_about_def
      g_print_def Let_def)

subsection \<open>Startup\<close>

text \<open>
  C1. Startup adds to the action map of the application exactly the four actions
  \<^verbatim>\<open>new-window\<close>, \<^verbatim>\<open>preferences\<close>, \<^verbatim>\<open>shortcuts\<close> and \<^verbatim>\<open>about\<close>, in one call, and adds
  nothing to any other action map. No other function of the file registers an action:
  activation, the four callbacks and the open handler leave every action map as it was.
\<close>

theorem startup_registers_exactly_four_actions:
  "registered_actions (example_app_startup tk gapp w) m =
     registered_actions w m @
       (if m = gapp then [''new-window'', ''preferences'', ''shortcuts'', ''about''] else [])
   \<and> registered_actions (example_app_startup tk gapp []) gapp =
       [''new-window'', ''preferences'', ''shortcuts'', ''about'']
   \<and> count_calls ''g_action_map_add_action_entries'' (example_app_startup tk gapp w) =
       count_calls ''g_action_map_add_action_entries'' w + 1
   \<and> registered_actions (example_app_activate tk gapp w) m = registered_actions w m
   \<and> registered_actions (call_callback cb action parameter user_data w) m =
       registered_actions w m
   \<and> (case example_app_open tk gapp files n_files hint w of
         Inl e \<Rightarrow> registered_actions w m
       | Inr w' \<Rightarrow> registered_actions w' m) = registered_actions w m"
proof -
  have four: "map name app_entries = [''new-window'', ''preferences'', ''shortcuts'', ''about'']"
    by (simp add: app_entries_def)
  have len: "length app_entries = 4"
    by (simp add: app_entries_def)
  have startup: "registered_actions (example_app_startup tk gapp w) m' =
      registered_actions w m' @
        (if m' = gapp then [''new-window'', ''preferences'', ''shortcuts'', ''about''] else [])"
    for w m'
    using four len
    by (simp add: example_app_startup_calls registered_actions_def)
  have count: "count_calls ''g_action_map_add_action_entries'' (example_app_startup tk gapp w) =
      count_calls ''g_action_map_add_action_entries'' w + 1"
    by (simp add: example_app_startup_calls count_calls_def)
  have activate: "registered_actions (example_app_activate tk gapp w) m = registered_actions w m"
    for w
    by (simp add: example_app_activate_calls registered_actions_def)
  have callback: "registered_actions (call_callback cb action parameter user_data w) m =
      registered_actions w m"
    by (cases cb)
      (simp_all add: on_new_window_def on_preferences_def on_shortcuts_def on_about_def
        g_print_def Let_def registered_actions_def)
  have "opn": "(case example_app_open tk gapp files n_files hint w of
        Inl e \<Rightarrow> registered_actions w m
      | Inr w' \<Rightarrow> registered_actions w' m) = registered_actions w m"
  proof (cases "example_app_open_loop tk files n_files 0 w")
    case (Inl e)
    then show ?thesis
      by (simp add: example_app_open_def)
  next
    case (Inr w1)
    then obtain fs where "w1 = w @ concat (map (open_file_calls tk) fs)"
      using example_app_open_loop_shape by blast
    then have "registered_actions w1 m = registered_actions w m"
      by (simp add: registered_actions_append registered_actions_open_file_calls)
    with Inr show ?thesis
      by (simp add: example_app_open_def activate)
  qed
  from startup [of w m] startup [of "[]" gapp] count activate [of w] callback "opn"
  show ?thesis
    by (simp add: registered_actions_def)
qed

text \<open>
  C9. Startup makes exactly three accelerator bindings, in this order: \<^verbatim>\<open>app.new-window\<close>
  to \<^verbatim>\<open><Primary>n\<close>, \<^verbatim>\<open>app.preferences\<close> to \<^verbatim>\<open><Primary>comma\<close> and \<^verbatim>\<open>app.shortcuts\<close> to
  \<^verbatim>\<open><Primary>question\<close>, all three on the application itself. The accelerators of the
  about action, under the name \<^verbatim>\<open>app.about\<close> as under \<^verbatim>\<open>about\<close>, are what they were
  before startup: none, when startup is the first thing to run.
\<close>

theorem startup_binds_three_accelerators:
  "accel_bindings (example_app_startup tk gapp w) =
     accel_bindings w @
       [(''app.new-window'', [''<Primary>n'']),
        (''app.preferences'', [''<Primary>comma'']),
        (''app.shortcuts'', [''<Primary>question''])]
   \<and> count_calls ''gtk_application_set_accels_for_action'' (example_app_startup tk gapp w) =
       count_calls ''gtk_application_set_accels_for_action'' w + 3
   \<and> accels_for_action (example_app_startup tk gapp w) gapp ''app.new-window'' =
       [''<Primary>n'']
   \<and> accels_for_action (example_app_startup tk gapp w) gapp ''app.preferences'' =
       [''<Primary>comma'']
   \<and> accels_for_action (example_app_startup tk gapp w) gapp ''app.shortcuts'' =
       [''<Primary>question'']
   \<and> accels_for_action (example_app_startup tk gapp w) app ''app.about'' =
       accels_for_action w app ''app.about''
   \<and> accels_for_action (example_app_startup tk gapp w) app ''about'' =
       accels_for_action w app ''about''
   \<and> accels_for_action (example_app_startup tk gapp []) app ''app.about'' = []
   \<and> accels_for_action (example_app_startup tk gapp []) app ''about'' = []"
  by (simp add: example_app_startup_calls accel_bindings_def count_calls_def
      accels_for_action_def)

text \<open>
  C2, as amended. For every action name of the exposed set but \<^verbatim>\<open>about\<close>, that is for
  \<^verbatim>\<open>new-window\<close>, \<^verbatim>\<open>preferences\<close> and \<^verbatim>\<open>shortcuts\<close>, startup binds one accelerator string
  to the action, under its detailed name \<^verbatim>\<open>app.\<close> followed by the action name. The
  action \<^verbatim>\<open>about\<close> is given none: its accelerators are what they were before startup,
  and there are none when startup runs first.
\<close>

theorem startup_binds_accelerator_to_all_but_about:
  "(\<forall>a \<in> set [''new-window'', ''preferences'', ''shortcuts''].
      \<exists>accel. accels_for_action (example_app_startup tk gapp w) gapp (''app.'' @ a) = [accel])
   \<and> accels_for_action (example_app_startup tk gapp w) app (''app.'' @ ''about'') =
       accels_for_action w app (''app.'' @ ''about'')
   \<and> accels_for_action (example_app_startup tk gapp []) app (''app.'' @ ''about'') = []"
  by (simp add: example_app_startup_calls accels_for_action_def)

theorem startup_binds_accelerator_to_all_but_about_witness:
  "''new-window'' \<in> set [''new-window'', ''preferences'', ''shortcuts'']
   \<and> (\<exists>accel. accels_for_action (example_app_startup sample_toolkit 1 []) 1
         ''app.new-window'' = [accel])"
  using startup_binds_accelerator_to_all_but_about
    [where tk = sample_toolkit and gapp = 1 and w = "[]" and app = 1]
  by simp

text \<open>
  C2, as stated, fails at the action \<^verbatim>\<open>about\<close>: after startup on a world with no earlier
  call, no accelerator is bound to it, under the name \<^verbatim>\<open>app.about\<close> or under \<^verbatim>\<open>about\<close>,
  and the three names that were given one are the other three.
\<close>

theorem about_has_no_accelerator:
  "accels_for_action (example_app_startup sample_toolkit 1 []) 1 ''app.about'' = []
   \<and> accels_for_action (example_app_startup sample_toolkit 1 []) 1 ''about'' = []
   \<and> map fst (accel_bindings (example_app_startup sample_toolkit 1 [])) =
       [''app.new-window'', ''app.preferences'', ''app.shortcuts'']"
  by (simp add: example_app_startup_calls accel_bindings_def accels_for_action_def)

text \<open>
  C6. Startup loads the stylesheet by the path \<^verbatim>\<open>style.css\<close>, once, and this call comes
  after the chain-up to the parent class, the registration of the actions and the three
  accelerator bindings, none of which comes after it.
\<close>

theorem startup_loads_css_after_actions_and_accels:
  "\<exists>before after.
     example_app_startup tk gapp w =
       w @ before @
         [Gtk_css_provider_load_from_path (css_provider_new_ret tk) ''style.css'' NULL] @ after
     \<and> map call_name before =
         [''startup'', ''g_action_map_add_action_entries'',
          ''gtk_application_set_accels_for_action'', ''gtk_application_set_accels_for_action'',
          ''gtk_application_set_accels_for_action'', ''gtk_css_provider_new'']
     \<and> map call_name after =
         [''gdk_display_get_default'', ''gtk_style_context_add_provider_for_display'',
          ''g_print'']"
proof (intro exI conjI)
  show "example_app_startup tk gapp w =
      w @ [Parent_startup gapp,
           G_action_map_add_action_entries gapp app_entries 4 gapp,
           Gtk_application_set_accels_for_action gapp ''app.new-window''
             [Some ''<Primary>n'', None],
           Gtk_application_set_accels_for_action gapp ''app.preferences''
             [Some ''<Primary>comma'', None],
           Gtk_application_set_accels_for_action gapp ''app.shortcuts''
             [Some ''<Primary>question'', None],
           Gtk_css_provider_new] @
        [Gtk_css_provider_load_from_path (css_provider_new_ret tk) ''style.css'' NULL] @
        [Gdk_display_get_default,
         Gtk_style_context_add_provider_for_display
           (display_get_default_ret tk) (css_provider_new_ret tk) 600,
         G_print ''Application started\<newline>'']"
    by (simp add: example_app_startup_calls)
qed simp_all

subsection \<open>Activation\<close>

text \<open>
  C4. Every activation, from every world and whatever the toolkit returns, first loads
  the UI description from the path \<^verbatim>\<open>window.ui\<close>, then asks the builder it got for the
  object named \<^verbatim>\<open>example_window\<close>, then attaches the object it got to the application,
  then presents that same object; it ends by releasing the builder and printing.
\<close>

theorem activate_builds_attaches_presents_in_order:
  "(let builder = builder_new_from_file_ret tk ''window.ui'';
        window = builder_get_object_ret tk builder ''example_window''
    in example_app_activate tk gapp w =
         w @ [Gtk_builder_new_from_file ''window.ui'',
              Gtk_builder_get_object builder ''example_window'',
              Gtk_window_set_application window gapp,
              Gtk_window_present window] @
             [G_object_unref builder, G_print ''Window activated\<newline>''])"
  by (simp add: example_app_activate_calls Let_def)

text \<open>
  C7, as amended. Neither file load is checked for failure. The stylesheet is loaded with
  \<^verbatim>\<open>NULL\<close> for the error out-parameter, in the only load startup makes, and what the load
  returns is dropped: startup leaves the same world whatever the load returns. Startup
  and activation make the same toolkit calls in the same order under any two toolkits.
  Activation has no branch on what the UI load gave: it passes the builder and the window
  it is handed, \<^verbatim>\<open>NULL\<close> included, on to the calls that follow, so the worlds it leaves
  under two toolkits are equal exactly when the two toolkits hand back the same builder
  and the same window.
\<close>

theorem file_loads_are_not_checked:
  "example_app_startup (tk\<lparr>css_provider_load_from_path_ret := r\<rparr>) gapp w =
     example_app_startup tk gapp w
   \<and> filter (\<lambda>c. call_name c = ''gtk_css_provider_load_from_path'')
         (drop (length w) (example_app_startup tk gapp w)) =
       [Gtk_css_provider_load_from_path (css_provider_new_ret tk) ''style.css'' NULL]
   \<and> map call_name (example_app_startup tk gapp w) =
       map call_name (example_app_startup tk' gapp w)
   \<and> map call_name (example_app_activate tk gapp w) =
       map call_name (example_app_activate tk' gapp w)
   \<and> (example_app_activate tk gapp w = example_app_activate tk' gapp w) =
       (builder_new_from_file_ret tk ''window.ui'' = builder_new_from_file_ret tk' ''window.ui''
        \<and> builder_get_object_ret tk (builder_new_from_file_ret tk ''window.ui'')
            ''example_window'' =
          builder_get_object_ret tk' (builder_new_from_file_ret tk' ''window.ui'')
            ''example_window'')
   \<and> example_app_activate
         (tk\<lparr>builder_new_from_file_ret := \<lambda>filename. builder,
             builder_get_object_ret := \<lambda>b object_name. window\<rparr>) gapp w =
       w @ [Gtk_builder_new_from_file ''window.ui'',
            Gtk_builder_get_object builder ''example_window'',
            Gtk_window_set_application window gapp,
            Gtk_window_present window,
            G_object_unref builder,
            G_print ''Window activated\<newline>'']"
proof -
  have css: "example_app_startup (tk\<lparr>css_provider_load_from_path_ret := r\<rparr>) gapp w =
      example_app_startup tk gapp w"
    by (simp add: example_app_startup_calls)
  have null: "filter (\<lambda>c. call_name c = ''gtk_css_provider_load_from_path'')
        (drop (length w) (example_app_startup tk gapp w)) =
      [Gtk_css_provider_load_from_path (css_provider_new_ret tk) ''style.css'' NULL]"
    by (simp add: example_app_startup_calls)
  have startup: "map call_name (example_app_startup tk gapp w) =
      map call_name (example_app_startup tk' gapp w)"
    by (simp add: example_app_startup_calls)
  have activate: "map call_name (example_app_activate tk gapp w) =
      map call_name (example_app_activate tk' gapp w)"
    by (simp add: example_app_activate_calls)
  have same: "(example_app_activate tk gapp w = example_app_activate tk' gapp w) =
      (builder_new_from_file_ret tk ''window.ui'' = builder_new_from_file_ret tk' ''window.ui''
       \<and> builder_get_object_ret tk (builder_new_from_file_ret tk ''window.ui'')
           ''example_window'' =
         builder_get_object_ret tk' (builder_new_from_file_ret tk' ''window.ui'')
           ''example_window'')"
    by (auto simp add: example_app_activate_calls)
  have passed: "example_app_activate
        (tk\<lparr>builder_new_from_file_ret := \<lambda>filename. builder,
            builder_get_object_ret := \<lambda>b object_name. window\<rparr>) gapp w =
      w @ [Gtk_builder_new_from_file ''window.ui'',
           Gtk_builder_get_object builder ''example_window'',
           Gtk_window_set_application window gapp,
           Gtk_window_present window,
           G_object_unref builder,
           G_print ''Window activated\<newline>'']"
    by (simp add: example_app_activate_calls)
  from css null startup activate same passed show ?thesis
    by (intro conjI)
qed

text \<open>
  C7, as stated, fails for activation: with \<^verbatim>\<open>window.ui\<close> loaded the window 10 is attached
  and presented, with the load failed the same calls are made on \<^verbatim>\<open>NULL\<close>, and the two
  worlds differ.
\<close>

theorem activation_state_differs_when_ui_load_fails:
  "example_app_activate sample_toolkit 1 [] =
     [Gtk_builder_new_from_file ''window.ui'',
      Gtk_builder_get_object 9 ''example_window'',
      Gtk_window_set_application 10 1, Gtk_window_present 10,
      G_object_unref 9, G_print ''Window activated\<newline>'']
   \<and> example_app_activate failed_ui_toolkit 1 [] =
       [Gtk_builder_new_from_file ''window.ui'',
        Gtk_builder_get_object 9 ''example_window'',
        Gtk_window_set_application NULL 1, Gtk_window_present NULL,
        G_object_unref 9, G_print ''Window activated\<newline>'']
   \<and> example_app_activate sample_toolkit 1 [] \<noteq> example_app_activate failed_ui_toolkit 1 []"
  by (simp add: example_app_activate_calls sample_toolkit_def failed_ui_toolkit_def)

subsection \<open>Opening files\<close>

text \<open>
  C5. When \<^verbatim>\<open>n_files\<close> is the number of files of the array, the open handler returns, and
  what it has done is: for each file in the order of the array, index \<open>0\<close> to
  \<open>n_files - 1\<close>, one iteration that prints \<^verbatim>\<open>Opening file: \<close> followed by the path
  the toolkit gave for that file; and then, on the world so reached, the activate handler,
  whose window is presented and whose print comes last.
\<close>

theorem open_prints_each_path_then_activates:
  assumes "sint n_files = int (length files)"
  shows "example_app_open tk gapp files n_files hint w =
      Inr (example_app_activate tk gapp (w @ concat (map (open_file_calls tk) files)))
    \<and> printed (w @ concat (map (open_file_calls tk) files)) =
        printed w @
          map (\<lambda>i. ''Opening file: '' @ printf_s (file_get_path_ret tk (files ! i)) @
                 ''\<newline>'') [0..<length files]
    \<and> (\<exists>w'. example_app_open tk gapp files n_files hint w = Inr w'
          \<and> printed w' =
              printed w @
                map (\<lambda>file. ''Opening file: '' @ printf_s (file_get_path_ret tk file) @
                       ''\<newline>'') files @
                [''Window activated\<newline>'']
          \<and> count_calls ''gtk_window_present'' w' = count_calls ''gtk_window_present'' w + 1)"
proof -
  let ?line = "\<lambda>file. ''Opening file: '' @ printf_s (file_get_path_ret tk file) @ ''\<newline>''"
  let ?w1 = "w @ concat (map (open_file_calls tk) files)"
  have take_all: "take (nat (sint n_files)) files = files"
    using assms by simp
  have opened: "example_app_open tk gapp files n_files hint w =
      Inr (example_app_activate tk gapp ?w1)"
    using example_app_open_calls [of n_files files tk gapp hint w] assms take_all by simp
  have by_index: "map ?line files = map (\<lambda>i. ?line (files ! i)) [0..<length files]"
    by (simp add: map_equality_iff)
  have lines: "printed ?w1 = printed w @ map ?line files"
    by (simp add: printed_append printed_open_file_calls)
  have "printed (example_app_activate tk gapp ?w1) =
      printed w @ map ?line files @ [''Window activated\<newline>'']"
    using lines by (simp add: example_app_activate_calls printed_append) (simp add: printed_def)
  moreover have "count_calls ''gtk_window_present'' (example_app_activate tk gapp ?w1) =
      count_calls ''gtk_window_present'' w + 1"
    by (simp add: example_app_activate_calls count_calls_append count_calls_open_file_calls)
      (simp add: count_calls_def)
  ultimately show ?thesis
    using opened lines by_index by simp
qed

theorem open_prints_each_path_then_activates_witness:
  "sint (2 :: gint) = int (length [21, 22 :: gpointer])
   \<and> example_app_open sample_toolkit 1 [21, 22] 2 ''hint'' [] =
       Inr [G_file_get_path 21, G_print ''Opening file: /tmp/a.txt\<newline>'',
            G_free (Some ''/tmp/a.txt''),
            G_file_get_path 22, G_print ''Opening file: (null)\<newline>'', G_free None,
            Gtk_builder_new_from_file ''window.ui'',
            Gtk_builder_get_object 9 ''example_window'',
            Gtk_window_set_application 10 1, Gtk_window_present 10,
            G_object_unref 9, G_print ''Window activated\<newline>'']"
proof -
  have n: "sint (2 :: gint) = int (length [21, 22 :: gpointer])"
    by simp
  show ?thesis
    using n open_prints_each_path_then_activates [OF n, of sample_toolkit 1 "''hint''" "[]"]
    by (simp add: example_app_activate_calls open_file_calls_def sample_toolkit_def)
qed

text \<open>
  C10. Whenever \<^verbatim>\<open>n_files\<close> does not exceed the number of files of the array, the open
  handler returns and has run the activate handler exactly once, as its last step: the
  world has one more load of the UI description, one more presented window and one more
  \<^verbatim>\<open>Window activated\<close> than before. With \<^verbatim>\<open>n_files = 0\<close>, whatever the array, the handler
  is the activate handler alone: nothing is printed for a file, and the window is built
  and presented.
\<close>

theorem open_activates_exactly_once:
  assumes "sint n_files \<le> int (length files)"
  shows "(\<exists>w1 w'. example_app_open tk gapp files n_files hint w = Inr w'
          \<and> w' = example_app_activate tk gapp w1
          \<and> count_calls ''gtk_builder_new_from_file'' w' =
              count_calls ''gtk_builder_new_from_file'' w + 1
          \<and> count_calls ''gtk_window_present'' w' = count_calls ''gtk_window_present'' w + 1
          \<and> length (filter (\<lambda>s. s = ''Window activated\<newline>'') (printed w')) =
              length (filter (\<lambda>s. s = ''Window activated\<newline>'') (printed w)) + 1)
    \<and> example_app_open tk gapp files 0 hint w = Inr (example_app_activate tk gapp w)
    \<and> printed (example_app_activate tk gapp w) = printed w @ [''Window activated\<newline>'']
    \<and> count_calls ''g_file_get_path'' (example_app_activate tk gapp w) =
        count_calls ''g_file_get_path'' w"
proof -
  let ?fs = "take (nat (sint n_files)) files"
  let ?w1 = "w @ concat (map (open_file_calls tk) ?fs)"
  let ?w' = "example_app_activate tk gapp ?w1"
  have opened: "example_app_open tk gapp files n_files hint w = Inr ?w'"
    using assms by (rule example_app_open_calls)
  have builder: "count_calls ''gtk_builder_new_from_file'' ?w' =
      count_calls ''gtk_builder_new_from_file'' w + 1"
    by (simp add: example_app_activate_calls count_calls_append count_calls_open_file_calls)
      (simp add: count_calls_def)
  have present: "count_calls ''gtk_window_present'' ?w' =
      count_calls ''gtk_window_present'' w + 1"
    by (simp add: example_app_activate_calls count_calls_append count_calls_open_file_calls)
      (simp add: count_calls_def)
  have "filter (\<lambda>s. s = ''Window activated\<newline>'')
      (printed (concat (map (open_file_calls tk) ?fs))) = []"
    by (simp add: printed_open_file_calls filter_empty_conv)
  then have msg: "length (filter (\<lambda>s. s = ''Window activated\<newline>'') (printed ?w')) =
      length (filter (\<lambda>s. s = ''Window activated\<newline>'') (printed w)) + 1"
    by (simp add: example_app_activate_calls printed_append) (simp add: printed_def)
  have first: "\<exists>w1 w'. example_app_open tk gapp files n_files hint w = Inr w'
      \<and> w' = example_app_activate tk gapp w1
      \<and> count_calls ''gtk_builder_new_from_file'' w' =
          count_calls ''gtk_builder_new_from_file'' w + 1
      \<and> count_calls ''gtk_window_present'' w' = count_calls ''gtk_window_present'' w + 1
      \<and> length (filter (\<lambda>s. s = ''Window activated\<newline>'') (printed w')) =
          length (filter (\<lambda>s. s = ''Window activated\<newline>'') (printed w)) + 1"
    using opened builder present msg by blast
  have zero: "example_app_open tk gapp files 0 hint w = Inr (example_app_activate tk gapp w)"
    using example_app_open_calls [of 0 files tk gapp hint w] by simp
  have only: "printed (example_app_activate tk gapp w) =
      printed w @ [''Window activated\<newline>'']"
    by (simp add: example_app_activate_calls printed_append) (simp add: printed_def)
  have none: "count_calls ''g_file_get_path'' (example_app_activate tk gapp w) =
      count_calls ''g_file_get_path'' w"
    by (simp add: example_app_activate_calls count_calls_append) (simp add: count_calls_def)
  from first zero only none show ?thesis
    by blast
qed

theorem open_activates_exactly_once_witness:
  "sint (0 :: gint) \<le> int (length ([] :: gpointer list))
   \<and> example_app_open sample_toolkit 1 [] 0 ''hint'' [] =
       Inr [Gtk_builder_new_from_file ''window.ui'',
            Gtk_builder_get_object 9 ''example_window'',
            Gtk_window_set_application 10 1, Gtk_window_present 10,
            G_object_unref 9, G_print ''Window activated\<newline>'']"
proof -
  have n: "sint (0 :: gint) \<le> int (length ([] :: gpointer list))"
    by simp
  show ?thesis
    using n open_activates_exactly_once [OF n, of sample_toolkit 1 "''hint''" "[]"]
    by (simp add: example_app_activate_calls sample_toolkit_def)
qed

end
